theory Spec2Isabelle
  imports Main
begin

section \<open>Text\<close>

text \<open>
  A \<^verbatim>\<open>str\<close> of Python is a sequence of Unicode code points; \<open>pystr\<close> is the list of
  them, each a natural number. \<open>str\<close> gives the \<open>pystr\<close> of a literal written in ASCII
  and \<open>point\<close> is the code point of the full stop.
\<close>

type_synonym pystr = "nat list"

definition code_point :: "char \<Rightarrow> nat" where
  "code_point c = of_char c"

definition str :: "string \<Rightarrow> pystr" where
  "str s = map code_point s"

abbreviation point :: nat where
  "point \<equiv> code_point (CHR ''.'')"

text \<open>
  \<^verbatim>\<open>str.isspace\<close> on one character, which is also the class \<^verbatim>\<open>\s\<close> of \<^verbatim>\<open>re\<close> on a
  \<^verbatim>\<open>str\<close>: U+0009..U+000D, U+001C..U+0020, U+0085, U+00A0, U+1680, U+2000..U+200A,
  U+2028, U+2029, U+202F, U+205F and U+3000.
\<close>

definition isspace :: "nat \<Rightarrow> bool" where
  "isspace c =
     ((9 \<le> c \<and> c \<le> 13) \<or> (28 \<le> c \<and> c \<le> 32) \<or> c = 133 \<or> c = 160 \<or> c = 5760
      \<or> (8192 \<le> c \<and> c \<le> 8202) \<or> c = 8232 \<or> c = 8233 \<or> c = 8239 \<or> c = 8287
      \<or> c = 12288)"

text \<open>
  The class \<^verbatim>\<open>\d\<close> of \<^verbatim>\<open>re\<close> on a \<^verbatim>\<open>str\<close>: the decimal digits of Unicode (general
  category Nd), not the ten ASCII digits alone. They come in runs of ten, zero to nine;
  \<open>decimal_zeros\<close> lists the code point of the zero of each run (Unicode 14.0, the
  table of Python 3.11: 66 runs, 660 digits), from U+0030 DIGIT ZERO and U+0660 ARABIC-INDIC DIGIT ZERO up to
  U+1FBF0 SEGMENTED DIGIT ZERO.
\<close>

definition decimal_zeros :: "nat list" where
  "decimal_zeros =
     [48, 1632, 1776, 1984, 2406, 2534, 2662, 2790, 2918, 3046, 3174, 3302, 3430, 3558,
      3664, 3792, 3872, 4160, 4240, 6112, 6160, 6470, 6608, 6784, 6800, 6992, 7088, 7232,
      7248, 42528, 43216, 43264, 43472, 43504, 43600, 44016, 65296, 66720, 68912, 69734,
      69872, 69942, 70096, 70384, 70736, 70864, 71248, 71360, 71472, 71904, 72016, 72784,
      73040, 73120, 92768, 92864, 93008, 120782, 120792, 120802, 120812, 120822, 123200,
      123632, 125264, 130032]"

definition isdigit :: "nat \<Rightarrow> bool" where
  "isdigit c = list_ex (\<lambda>zero. zero \<le> c \<and> c < zero + 10) decimal_zeros"

section \<open>Parsed markup\<close>

text \<open>
  \<^verbatim>\<open>scraper.py\<close> works on the tree that \<^verbatim>\<open>BeautifulSoup(..., 'html.parser')\<close> builds.
  A node of that tree is a tag (name, attribute dictionary, children), a text string, or a
  string of another kind (comment, declaration, script or style content) that \<^verbatim>\<open>.text\<close>
  leaves out. The attribute dictionary holds the attribute values as they stand in the
  page; the list view that the library gives to \<^verbatim>\<open>class\<close> and its like is computed by
  \<open>tag_get\<close> below.
\<close>

datatype node =
    Tag (name: pystr) (attrs: "pystr \<rightharpoonup> pystr") (contents: "node list")
  | NavigableString pystr
  | Comment pystr

text \<open>A value read from a tag: \<^verbatim>\<open>None\<close>, a \<^verbatim>\<open>str\<close>, or a list of \<^verbatim>\<open>str\<close>.\<close>

datatype pyval = PyNone | PyStr pystr | PyList "pystr list"

subsection \<open>Strings\<close>

text \<open>\<^verbatim>\<open>s.strip()\<close>: whitespace removed from both ends.\<close>

definition strip :: "pystr \<Rightarrow> pystr" where
  "strip s = rev (dropWhile isspace (rev (dropWhile isspace s)))"

text \<open>\<^verbatim>\<open>re.findall(r"\S+", s)\<close>: the maximal runs of non-whitespace, \<open>cur\<close> being the run
  read so far.\<close>

fun nonwhitespace :: "pystr \<Rightarrow> pystr \<Rightarrow> pystr list" where
  "nonwhitespace cur [] = (if cur = [] then [] else [cur])"
| "nonwhitespace cur (c # cs) =
     (if isspace c then (if cur = [] then nonwhitespace [] cs else cur # nonwhitespace [] cs)
      else nonwhitespace (cur @ [c]) cs)"

text \<open>\<^verbatim>\<open>' '.join(xs)\<close>.\<close>

fun join_space :: "pystr list \<Rightarrow> pystr" where
  "join_space [] = []"
| "join_space [x] = x"
| "join_space (x # y # ys) = x @ str '' '' @ join_space (y # ys)"

text \<open>\<^verbatim>\<open>sub in s\<close> for two strings: \<open>sub\<close> occurs in \<open>s\<close> as a contiguous piece.\<close>

fun str_contains :: "pystr \<Rightarrow> pystr \<Rightarrow> bool" where
  "str_contains sub [] = (sub = [])"
| "str_contains sub (c # cs) = (take (length sub) (c # cs) = sub \<or> str_contains sub cs)"

subsection \<open>The library's search\<close>

text \<open>
  The attributes that the HTML tree builder splits into a list of whitespace-separated
  values: \<^verbatim>\<open>class\<close>, \<^verbatim>\<open>accesskey\<close> and \<^verbatim>\<open>dropzone\<close> on every tag, and a few more on
  particular tags. Every other attribute, \<^verbatim>\<open>id\<close> and \<^verbatim>\<open>href\<close> among them, is a \<^verbatim>\<open>str\<close>.
\<close>

definition cdata_list_attribute :: "pystr \<Rightarrow> pystr \<Rightarrow> bool" where
  "cdata_list_attribute tag_name key =
     (key \<in> {str ''class'', str ''accesskey'', str ''dropzone''}
      \<or> (tag_name, key) \<in> {(str ''a'', str ''rel''), (str ''a'', str ''rev''), (str ''link'', str ''rel''), (str ''link'', str ''rev''),
            (str ''td'', str ''headers''), (str ''th'', str ''headers''), (str ''form'', str ''accept-charset''),
            (str ''object'', str ''archive''), (str ''area'', str ''rel''), (str ''icon'', str ''sizes''),
            (str ''iframe'', str ''sandbox''), (str ''output'', str ''for'')})"

text \<open>\<^verbatim>\<open>tag.get(key)\<close>: \<^verbatim>\<open>None\<close> when the attribute is missing.\<close>

fun tag_get :: "node \<Rightarrow> pystr \<Rightarrow> pyval" where
  "tag_get (Tag n a cs) key =
     (case a key of
        None \<Rightarrow> PyNone
      | Some v \<Rightarrow> if cdata_list_attribute n key then PyList (nonwhitespace [] v) else PyStr v)"
| "tag_get (NavigableString s) key = PyNone"
| "tag_get (Comment s) key = PyNone"

text \<open>\<^verbatim>\<open>tag.descendants\<close>: every node below the tag, in document order.\<close>

fun descendants :: "node \<Rightarrow> node list" where
  "descendants (Tag n a cs) = concat (map (\<lambda>c. c # descendants c) cs)"
| "descendants (NavigableString s) = []"
| "descendants (Comment s) = []"

text \<open>\<^verbatim>\<open>tag.text\<close>: the text strings below the tag, joined.\<close>

fun own_string :: "node \<Rightarrow> pystr" where
  "own_string (NavigableString s) = s"
| "own_string (Tag n a cs) = []"
| "own_string (Comment s) = []"

fun text_of :: "node \<Rightarrow> pystr" where
  "text_of (Tag n a cs) = concat (map own_string (descendants (Tag n a cs)))"
| "text_of (NavigableString s) = s"
| "text_of (Comment s) = s"

text \<open>
  Matching one attribute value against the string searched for: a missing attribute
  matches only the empty string, a \<^verbatim>\<open>str\<close> matches when equal, and a list matches when
  one of its items is equal or when the items joined by single spaces are.
\<close>

fun value_matches :: "pyval \<Rightarrow> pystr \<Rightarrow> bool" where
  "value_matches PyNone match_against = (match_against = [])"
| "value_matches (PyStr v) match_against = (v = match_against)"
| "value_matches (PyList vs) match_against =
     (match_against \<in> set vs \<or> join_space vs = match_against)"

text \<open>A search by tag name and attribute dictionary matches tags only.\<close>

fun search_tag :: "pystr \<Rightarrow> (pystr \<times> pystr) list \<Rightarrow> node \<Rightarrow> bool" where
  "search_tag nm want (Tag n a cs) =
     (n = nm \<and> list_all (\<lambda>(key, match_against). value_matches (tag_get (Tag n a cs) key) match_against) want)"
| "search_tag nm want (NavigableString s) = False"
| "search_tag nm want (Comment s) = False"

definition find_all :: "node \<Rightarrow> pystr \<Rightarrow> (pystr \<times> pystr) list \<Rightarrow> node list" where
  "find_all soup nm want = filter (search_tag nm want) (descendants soup)"

text \<open>\<^verbatim>\<open>soup.find(...)\<close>: the first match, or \<^verbatim>\<open>None\<close>.\<close>

definition find_first :: "node \<Rightarrow> pystr \<Rightarrow> (pystr \<times> pystr) list \<Rightarrow> node option" where
  "find_first soup nm want = (case find_all soup nm want of [] \<Rightarrow> None | t # ts \<Rightarrow> Some t)"

section \<open>The field extractors\<close>

text \<open>
  In each extractor \<^verbatim>\<open>soup.find(...)\<close> gives \<^verbatim>\<open>None\<close> when nothing matches, \<^verbatim>\<open>.text\<close> on
  \<^verbatim>\<open>None\<close> raises \<^verbatim>\<open>AttributeError\<close>, and the \<^verbatim>\<open>except\<close> clause takes over: the \<open>None\<close>
  branch of each \<open>case\<close> is that clause.
\<close>

definition get_title :: "node \<Rightarrow> pystr" where
  "get_title soup =
     (case find_first soup (str ''span'') [(str ''id'', str ''productTitle'')] of
        Some t \<Rightarrow> strip (text_of t)
      | None \<Rightarrow> str ''Title not found'')"

text \<open>The three string operations of the composite price step.\<close>

text \<open>\<^verbatim>\<open>re.sub(r'[^\d.]', '', s)\<close>: every character that is neither a digit nor a point
  is deleted.\<close>

definition re_sub_non_digit_dot :: "pystr \<Rightarrow> pystr" where
  "re_sub_non_digit_dot s = filter (\<lambda>c. isdigit c \<or> c = point) s"

text \<open>\<^verbatim>\<open>s.count(c)\<close> for a one-character \<open>c\<close>.\<close>

definition str_count :: "pystr \<Rightarrow> nat \<Rightarrow> nat" where
  "str_count s c = length (filter (\<lambda>x. x = c) s)"

text \<open>\<^verbatim>\<open>s.replace(c, '', n)\<close> for a one-character \<open>c\<close>: the first \<open>n\<close> occurrences of \<open>c\<close>,
  from the left, are deleted.\<close>

fun str_replace_empty :: "pystr \<Rightarrow> nat \<Rightarrow> nat \<Rightarrow> pystr" where
  "str_replace_empty s c 0 = s"
| "str_replace_empty [] c (Suc n) = []"
| "str_replace_empty (x # xs) c (Suc n) =
     (if x = c then str_replace_empty xs c n else x # str_replace_empty xs c (Suc n))"

definition get_price :: "node \<Rightarrow> pystr" where
  "get_price soup =
     (case find_first soup (str ''span'') [(str ''id'', str ''priceblock_ourprice'')] of
        Some t \<Rightarrow> strip (text_of t)
      | None \<Rightarrow>
        (case find_first soup (str ''span'') [(str ''id'', str ''priceblock_dealprice'')] of
           Some t \<Rightarrow> strip (text_of t)
         | None \<Rightarrow>
           (case find_first soup (str ''span'') [(str ''id'', str ''priceblock_saleprice'')] of
              Some t \<Rightarrow> strip (text_of t)
            | None \<Rightarrow>
              (case find_first soup (str ''span'') [(str ''class'', str ''a-price-whole'')] of
                 None \<Rightarrow> str ''Price not found''
               | Some w \<Rightarrow>
                 (case find_first soup (str ''span'') [(str ''class'', str ''a-price-fraction'')] of
                    None \<Rightarrow> str ''Price not found''
                  | Some f \<Rightarrow>
                    (let whole_price = strip (text_of w);
                         fraction_price = strip (text_of f);
                         price = whole_price @ str ''.'' @ fraction_price;
                         price = re_sub_non_digit_dot price
                     in if str_count price point \<le> 1 then price
                        else str_replace_empty price point (str_count price point - 1)))))))"

definition get_rating :: "node \<Rightarrow> pystr" where
  "get_rating soup =
     (case find_first soup (str ''span'') [(str ''class'', str ''a-icon-alt'')] of
        Some t \<Rightarrow> strip (text_of t)
      | None \<Rightarrow> str ''Rating not found'')"

definition get_seller_name :: "node \<Rightarrow> pystr" where
  "get_seller_name soup =
     (case find_first soup (str ''a'') [(str ''id'', str ''sellerProfileTriggerId'')] of
        Some t \<Rightarrow> strip (text_of t)
      | None \<Rightarrow> str ''Unknown Seller'')"

section \<open>Fetching one product\<close>

text \<open>
  The dictionary with the keys \<^verbatim>\<open>Product Name\<close>, \<^verbatim>\<open>Price\<close>, \<^verbatim>\<open>Rating\<close> and
  \<^verbatim>\<open>Seller Name\<close> is a record. The same four keys name the columns of the table, so the
  record is polymorphic in what a field holds.
\<close>

record 'a fields =
  Product_Name :: 'a
  Price :: 'a
  Rating :: 'a
  Seller_Name :: 'a

text \<open>
  What \<^verbatim>\<open>requests.get\<close> followed by \<^verbatim>\<open>raise_for_status\<close> and the parser gives for a URL:
  a \<^verbatim>\<open>RequestException\<close>, or the parsed page. The network is the function \<open>http\<close>.
\<close>

datatype response = RequestException | Page node

definition fetch_product_data :: "(pystr \<Rightarrow> response) \<Rightarrow> pystr \<Rightarrow> pystr fields option" where
  "fetch_product_data http url =
     (case http url of
        RequestException \<Rightarrow> None
      | Page soup \<Rightarrow>
          Some \<lparr>Product_Name = get_title soup, Price = get_price soup,
                Rating = get_rating soup, Seller_Name = get_seller_name soup\<rparr>)"

section \<open>Collecting the product links\<close>

datatype error = TypeError | ValueError

text \<open>Truth value of a \<^verbatim>\<open>None\<close>, a \<^verbatim>\<open>str\<close> or a list.\<close>

fun truthy :: "pyval \<Rightarrow> bool" where
  "truthy PyNone = False"
| "truthy (PyStr s) = (s \<noteq> [])"
| "truthy (PyList vs) = (vs \<noteq> [])"

text \<open>\<^verbatim>\<open>sub in v\<close> with \<open>sub\<close> a \<^verbatim>\<open>str\<close>: substring test on a \<^verbatim>\<open>str\<close>, membership in a list,
  \<^verbatim>\<open>TypeError\<close> on \<^verbatim>\<open>None\<close>.\<close>

fun py_in :: "pystr \<Rightarrow> pyval \<Rightarrow> error + bool" where
  "py_in sub PyNone = Inl TypeError"
| "py_in sub (PyStr s) = Inr (str_contains sub s)"
| "py_in sub (PyList vs) = Inr (sub \<in> set vs)"

text \<open>\<^verbatim>\<open>s + v\<close> with \<open>s\<close> a \<^verbatim>\<open>str\<close>: \<^verbatim>\<open>TypeError\<close> unless \<open>v\<close> is a \<^verbatim>\<open>str\<close> too.\<close>

fun py_add :: "pystr \<Rightarrow> pyval \<Rightarrow> error + pystr" where
  "py_add s (PyStr v) = Inr (s @ v)"
| "py_add s PyNone = Inl TypeError"
| "py_add s (PyList vs) = Inl TypeError"

text \<open>The body of the loop over the anchors, on the set built so far.\<close>

definition add_link :: "node \<Rightarrow> pystr set \<Rightarrow> error + pystr set" where
  "add_link link_tag product_links =
     (let link = tag_get link_tag (str ''href'') in
      if \<not> truthy link then Inr product_links
      else
        (case py_in (str ''/dp/'') link of
           Inl e \<Rightarrow> Inl e
         | Inr is_product \<Rightarrow>
             if is_product then
               (case py_add (str ''https://www.amazon.in'') link of
                  Inl e \<Rightarrow> Inl e
                | Inr full_link \<Rightarrow> Inr (insert full_link product_links))
             else Inr product_links))"

fun add_links :: "node list \<Rightarrow> pystr set \<Rightarrow> error + pystr set" where
  "add_links [] product_links = Inr product_links"
| "add_links (link_tag # link_tags) product_links =
     (case add_link link_tag product_links of
        Inl e \<Rightarrow> Inl e
      | Inr product_links' \<Rightarrow> add_links link_tags product_links')"

definition collect_links :: "node \<Rightarrow> error + pystr set" where
  "collect_links soup =
     add_links (find_all soup (str ''a'') [(str ''class'', str ''a-link-normal s-no-outline'')]) {}"

section \<open>The result table\<close>

text \<open>
  \<open>data\<close> is the dictionary of four lists. The loop visits the links in the order \<open>links\<close>
  (the iteration order of the set) and appends to all four lists when a product was fetched.
\<close>

definition empty_data :: "pystr list fields" where
  "empty_data = \<lparr>Product_Name = [], Price = [], Rating = [], Seller_Name = []\<rparr>"

definition append_product :: "pystr fields \<Rightarrow> pystr list fields \<Rightarrow> pystr list fields" where
  "append_product product_data data =
     \<lparr>Product_Name = Product_Name data @ [Product_Name product_data],
      Price = Price data @ [Price product_data],
      Rating = Rating data @ [Rating product_data],
      Seller_Name = Seller_Name data @ [Seller_Name product_data]\<rparr>"

fun collect_data :: "(pystr \<Rightarrow> response) \<Rightarrow> pystr list \<Rightarrow> pystr list fields \<Rightarrow> pystr list fields" where
  "collect_data http [] data = data"
| "collect_data http (link # links) data =
     (case fetch_product_data http link of
        None \<Rightarrow> collect_data http links data
      | Some product_data \<Rightarrow> collect_data http links (append_product product_data data))"

text \<open>A cell of the data frame: a string, or the missing value \<^verbatim>\<open>np.nan\<close>.\<close>

datatype cell = Str pystr | NaN

text \<open>\<^verbatim>\<open>pd.DataFrame(data)\<close>: one row per index; \<^verbatim>\<open>ValueError\<close> when the lists differ in
  length.\<close>

definition DataFrame :: "pystr list fields \<Rightarrow> error + cell fields list" where
  "DataFrame data =
     (if length (Price data) = length (Product_Name data)
         \<and> length (Rating data) = length (Product_Name data)
         \<and> length (Seller_Name data) = length (Product_Name data)
      then Inr (map (\<lambda>(n, p, r, s). \<lparr>Product_Name = Str n, Price = Str p, Rating = Str r, Seller_Name = Str s\<rparr>)
                  (zip (Product_Name data) (zip (Price data) (zip (Rating data) (Seller_Name data)))))
      else Inl ValueError)"

text \<open>\<^verbatim>\<open>df.replace("", np.nan)\<close>: every cell that is the empty string becomes missing.\<close>

definition replace_cell :: "cell \<Rightarrow> cell" where
  "replace_cell c = (if c = Str [] then NaN else c)"

definition replace_empty :: "cell fields list \<Rightarrow> cell fields list" where
  "replace_empty df =
     map (\<lambda>row. \<lparr>Product_Name = replace_cell (Product_Name row), Price = replace_cell (Price row),
                 Rating = replace_cell (Rating row), Seller_Name = replace_cell (Seller_Name row)\<rparr>) df"

text \<open>\<^verbatim>\<open>df.dropna(subset=['Product Name'])\<close>: the rows whose name is missing are dropped.\<close>

definition dropna_Product_Name :: "cell fields list \<Rightarrow> cell fields list" where
  "dropna_Product_Name df = filter (\<lambda>row. Product_Name row \<noteq> NaN) df"

text \<open>
  \<^verbatim>\<open>df.to_csv(..., index=False, header=True)\<close>: the header row, then one row of four
  fields per row of the frame, a missing value written as the empty field. The file is
  given as its rows of fields; quoting and line ends are the CSV writer's.
\<close>

definition write_cell :: "cell \<Rightarrow> pystr" where
  "write_cell c = (case c of Str s \<Rightarrow> s | NaN \<Rightarrow> [])"

definition to_csv :: "cell fields list \<Rightarrow> pystr list list" where
  "to_csv df =
     [str ''Product Name'', str ''Price'', str ''Rating'', str ''Seller Name'']
     # map (\<lambda>row. [write_cell (Product_Name row), write_cell (Price row),
                     write_cell (Rating row), write_cell (Seller_Name row)]) df"

text \<open>The run from the link set to the file: collect, build the frame, filter, write.\<close>

definition save_products :: "(pystr \<Rightarrow> response) \<Rightarrow> pystr list \<Rightarrow> error + pystr list list" where
  "save_products http links =
     (case DataFrame (collect_data http links empty_data) of
        Inl e \<Rightarrow> Inl e
      | Inr amazon_df \<Rightarrow> Inr (to_csv (dropna_Product_Name (replace_empty amazon_df))))"

section \<open>Example pages\<close>

text \<open>
  The pages used as concrete inputs: \<open>document\<close> is the root object the parser returns,
  \<open>element\<close> a tag with one attribute and one text child, \<open>anchor\<close> a link with a class
  and a target; their names, attributes and text are given as ASCII literals.
\<close>

definition document :: "node list \<Rightarrow> node" where
  "document cs = Tag (str ''[document]'') Map.empty cs"

definition element :: "string \<Rightarrow> string \<Rightarrow> string \<Rightarrow> string \<Rightarrow> node" where
  "element nm key v txt = Tag (str nm) [str key \<mapsto> str v] [NavigableString (str txt)]"

definition anchor :: "string \<Rightarrow> string \<Rightarrow> node" where
  "anchor cls href = Tag (str ''a'') [str ''class'' \<mapsto> str cls, str ''href'' \<mapsto> str href] []"

section \<open>Properties of the string operations\<close>

lemmas page_eval =
  find_first_def find_all_def document_def element_def anchor_def cdata_list_attribute_def
  isspace_def str_def code_point_def

lemmas run_eval =
  page_eval get_title_def get_price_def get_rating_def get_seller_name_def strip_def
  re_sub_non_digit_dot_def str_count_def isdigit_def decimal_zeros_def Let_def
  fetch_product_data_def save_products_def DataFrame_def empty_data_def append_product_def
  replace_empty_def replace_cell_def dropna_Product_Name_def to_csv_def write_cell_def

lemma str_replace_empty_other:
  "x \<noteq> c \<Longrightarrow> str_replace_empty (x # xs) c n = x # str_replace_empty xs c n"
  by (cases n) simp_all

lemma str_count_Nil: "str_count [] c = 0"
  by (simp add: str_count_def)

lemma str_count_Cons:
  "str_count (x # xs) c = (if x = c then Suc (str_count xs c) else str_count xs c)"
  by (simp add: str_count_def)

lemma str_count_notin: "c \<notin> set b \<Longrightarrow> str_count b c = 0"
  by (induction b) (auto simp: str_count_Nil str_count_Cons)

lemma str_count_append_last:
  "c \<notin> set b \<Longrightarrow> str_count (a @ c # b) c = Suc (str_count a c)"
  by (induction a) (simp_all add: str_count_Cons str_count_notin)

text \<open>Deleting as many occurrences as there are before the last one leaves the last.\<close>

lemma str_replace_keeps_last:
  "c \<notin> set b \<Longrightarrow>
   str_replace_empty (a @ c # b) c (str_count a c) = filter (\<lambda>x. x \<noteq> c) a @ c # b"
  by (induction a) (simp_all add: str_count_Nil str_count_Cons str_replace_empty_other)

text \<open>The conditional of the composite step, on a string whose last \<open>c\<close> is shown.\<close>

lemma one_point_kept:
  assumes "c \<notin> set b"
  shows "(let price = a @ c # b
          in if str_count price c \<le> 1 then price
             else str_replace_empty price c (str_count price c - 1))
         = filter (\<lambda>x. x \<noteq> c) a @ c # b"
proof (cases "str_count a c = 0")
  case True
  then have "filter (\<lambda>x. x \<noteq> c) a = a"
    by (simp add: str_count_def filter_id_conv filter_empty_conv)
  then show ?thesis
    using True by (simp add: str_count_append_last[OF assms])
next
  case False
  then show ?thesis
    by (simp add: str_count_append_last[OF assms] str_replace_keeps_last[OF assms])
qed

lemma set_str_replace_empty: "set (str_replace_empty s c n) \<subseteq> set s"
  by (induction s c n rule: str_replace_empty.induct) auto

lemma str_count_replace: "str_count (str_replace_empty s c n) c = str_count s c - n"
  by (induction s c n rule: str_replace_empty.induct) (simp_all add: str_count_Nil str_count_Cons)

text \<open>Below U+0100 the decimal digits are the ten ASCII digits.\<close>

lemma isdigit_below_256: "c < 256 \<Longrightarrow> isdigit c \<longleftrightarrow> 48 \<le> c \<and> c \<le> 57"
  by (auto simp: isdigit_def decimal_zeros_def)

lemma set_re_sub: "x \<in> set (re_sub_non_digit_dot s) \<Longrightarrow> isdigit x \<or> x = point"
  by (auto simp: re_sub_non_digit_dot_def)

text \<open>\<open>strip\<close> cuts a run of whitespace from each end, and what is left neither starts
  nor ends with whitespace.\<close>

lemma strip_trims:
  "\<exists>l r. s = l @ strip s @ r \<and> list_all isspace l \<and> list_all isspace r
     \<and> (strip s = [] \<or> (\<not> isspace (hd (strip s)) \<and> \<not> isspace (last (strip s))))"
proof -
  define m where "m = dropWhile isspace s"
  have s: "s = takeWhile isspace s @ m" by (simp add: m_def)
  have m: "m = strip s @ rev (takeWhile isspace (rev m))"
    unfolding strip_def m_def[symmetric]
    by (metis rev_append rev_rev_ident takeWhile_dropWhile_id)
  have l: "list_all isspace (takeWhile isspace s)"
    by (simp add: list_all_iff) (meson set_takeWhileD)
  have r: "list_all isspace (rev (takeWhile isspace (rev m)))"
    by (simp add: list_all_iff) (meson set_takeWhileD)
  have e: "strip s = [] \<or> (\<not> isspace (hd (strip s)) \<and> \<not> isspace (last (strip s)))"
  proof (cases "strip s = []")
    case True
    then show ?thesis by simp
  next
    case False
    then have d: "dropWhile isspace (rev m) \<noteq> []"
      by (simp add: strip_def m_def)
    have "last (strip s) = hd (dropWhile isspace (rev m))"
      using d by (simp add: strip_def m_def last_rev)
    then have la: "\<not> isspace (last (strip s))"
      using hd_dropWhile[OF d] by simp
    have "m \<noteq> []" using d by auto
    then have "\<not> isspace (hd m)"
      unfolding m_def by (rule hd_dropWhile)
    moreover have "hd m = hd (strip s)"
      using m False by (metis hd_append2)
    ultimately show ?thesis using la by simp
  qed
  show ?thesis using s m l r e by (metis append.assoc)
qed

section \<open>The price extractor\<close>

text \<open>What \<open>get_price\<close> computes once the three identifier searches have failed and both
  parts of the composite price were found.\<close>

lemma get_price_composite:
  assumes "find_first soup (str ''span'') [(str ''id'', str ''priceblock_ourprice'')] = None"
    and "find_first soup (str ''span'') [(str ''id'', str ''priceblock_dealprice'')] = None"
    and "find_first soup (str ''span'') [(str ''id'', str ''priceblock_saleprice'')] = None"
    and "find_first soup (str ''span'') [(str ''class'', str ''a-price-whole'')] = Some w"
    and "find_first soup (str ''span'') [(str ''class'', str ''a-price-fraction'')] = Some f"
  shows "get_price soup =
     (let price = re_sub_non_digit_dot (strip (text_of w) @ str ''.'' @ strip (text_of f))
      in if str_count price point \<le> 1 then price
         else str_replace_empty price point (str_count price point - 1))"
  using assms by (simp add: get_price_def Let_def)

text \<open>
  C2, as the code has it. In the composite step the cleaned string always holds a point;
  write it as \<open>a @ ''.'' @ b\<close> with no point in \<open>b\<close>, so that the point shown is the last
  one. The result deletes every point of \<open>a\<close> and keeps that last point: all characters
  other than points stay, in order, and of the points only the last one stays.
\<close>

theorem get_price_composite_keeps_last_point:
  assumes "find_first soup (str ''span'') [(str ''id'', str ''priceblock_ourprice'')] = None"
    and "find_first soup (str ''span'') [(str ''id'', str ''priceblock_dealprice'')] = None"
    and "find_first soup (str ''span'') [(str ''id'', str ''priceblock_saleprice'')] = None"
    and "find_first soup (str ''span'') [(str ''class'', str ''a-price-whole'')] = Some w"
    and "find_first soup (str ''span'') [(str ''class'', str ''a-price-fraction'')] = Some f"
    and "re_sub_non_digit_dot (strip (text_of w) @ str ''.'' @ strip (text_of f)) = a @ point # b"
    and "point \<notin> set b"
  shows "get_price soup = filter (\<lambda>c. c \<noteq> point) a @ point # b"
proof -
  have "get_price soup =
     (let price = a @ point # b
      in if str_count price point \<le> 1 then price
         else str_replace_empty price point (str_count price point - 1))"
    using get_price_composite[OF assms(1-5)] by (simp only: assms(6))
  also have "\<dots> = filter (\<lambda>c. c \<noteq> point) a @ point # b"
    using assms(7) by (rule one_point_kept)
  finally show ?thesis .
qed

text \<open>
  C2 at the page whose parts read \<open>12.99\<close> and \<open>00\<close>: the cleaned string is
  \<open>12.99.00\<close>, and the price returned is \<open>1299.00\<close>, the last point kept, not
  \<open>12.9900\<close>.
\<close>

theorem get_price_composite_12_99_00:
  "re_sub_non_digit_dot (strip (str ''12.99'') @ str ''.'' @ strip (str ''00'')) = str ''12.99.00''
   \<and> get_price (document [element ''span'' ''class'' ''a-price-whole'' ''12.99'',
                          element ''span'' ''class'' ''a-price-fraction'' ''00'']) = str ''1299.00''
   \<and> get_price (document [element ''span'' ''class'' ''a-price-whole'' ''12.99'',
                          element ''span'' ''class'' ''a-price-fraction'' ''00'']) \<noteq> (str ''12.9900'')"
  by (simp add: run_eval)

theorem get_price_composite_keeps_last_point_witness:
  "get_price (document [element ''span'' ''class'' ''a-price-whole'' ''12.99'',
                        element ''span'' ''class'' ''a-price-fraction'' ''00''])
   = filter (\<lambda>c. c \<noteq> point) (str ''12.99'') @ point # str ''00''
   \<and> filter (\<lambda>c. c \<noteq> point) (str ''12.99'') @ point # str ''00'' = str ''1299.00''"
proof -
  let ?page = "document [element ''span'' ''class'' ''a-price-whole'' ''12.99'',
                         element ''span'' ''class'' ''a-price-fraction'' ''00'']"
  let ?w = "element ''span'' ''class'' ''a-price-whole'' ''12.99''"
  let ?f = "element ''span'' ''class'' ''a-price-fraction'' ''00''"
  have h1: "find_first ?page (str ''span'') [(str ''id'', str ''priceblock_ourprice'')] = None" by (simp add: run_eval)
  have h2: "find_first ?page (str ''span'') [(str ''id'', str ''priceblock_dealprice'')] = None" by (simp add: run_eval)
  have h3: "find_first ?page (str ''span'') [(str ''id'', str ''priceblock_saleprice'')] = None" by (simp add: run_eval)
  have h4: "find_first ?page (str ''span'') [(str ''class'', str ''a-price-whole'')] = Some ?w"
    by (simp add: page_eval)
  have h5: "find_first ?page (str ''span'') [(str ''class'', str ''a-price-fraction'')] = Some ?f"
    by (simp add: page_eval)
  have h6: "re_sub_non_digit_dot (strip (text_of ?w) @ str ''.'' @ strip (text_of ?f)) = str ''12.99'' @ point # str ''00''"
    by (simp add: run_eval)
  have h7: "point \<notin> set (str ''00'')" by (simp add: str_def code_point_def)
  show ?thesis
    using get_price_composite_keeps_last_point[OF h1 h2 h3 h4 h5 h6 h7]
    by (simp add: str_def code_point_def)
qed

text \<open>
  C3: when none of the three identifier searches matches and both parts of the composite
  price are found, the price consists of digits and points only and has at most one point.
  A digit is a character of the class \<^verbatim>\<open>\d\<close>, that is a decimal digit of Unicode: the
  ASCII digits and the digits of the other scripts alike, which the step keeps as they are.
\<close>

theorem get_price_composite_digits_one_point:
  assumes "find_first soup (str ''span'') [(str ''id'', str ''priceblock_ourprice'')] = None"
    and "find_first soup (str ''span'') [(str ''id'', str ''priceblock_dealprice'')] = None"
    and "find_first soup (str ''span'') [(str ''id'', str ''priceblock_saleprice'')] = None"
    and "find_first soup (str ''span'') [(str ''class'', str ''a-price-whole'')] = Some w"
    and "find_first soup (str ''span'') [(str ''class'', str ''a-price-fraction'')] = Some f"
  shows "(\<forall>c \<in> set (get_price soup). isdigit c \<or> c = point)
         \<and> str_count (get_price soup) point \<le> 1"
proof -
  define price where "price = re_sub_non_digit_dot (strip (text_of w) @ str ''.'' @ strip (text_of f))"
  have gp: "get_price soup =
     (if str_count price point \<le> 1 then price
      else str_replace_empty price point (str_count price point - 1))"
    using get_price_composite[OF assms] by (simp add: price_def Let_def)
  have sub: "set (get_price soup) \<subseteq> set price"
    using set_str_replace_empty[of price] by (auto simp: gp)
  have chars: "\<forall>c \<in> set (get_price soup). isdigit c \<or> c = point"
    using sub set_re_sub unfolding price_def by blast
  have cnt: "str_count (get_price soup) point \<le> 1"
    by (simp add: gp str_count_replace)
  show ?thesis using chars cnt by simp
qed

theorem get_price_composite_digits_one_point_witness:
  "list_all (\<lambda>c. isdigit c \<or> c = point)
     (get_price (document [element ''span'' ''class'' ''a-price-whole'' ''1,299.'',
                           element ''span'' ''class'' ''a-price-fraction'' ''00'']))
   \<and> str_count (get_price (document [element ''span'' ''class'' ''a-price-whole'' ''1,299.'',
                                     element ''span'' ''class'' ''a-price-fraction'' ''00'']))
         point \<le> 1
   \<and> get_price (document [element ''span'' ''class'' ''a-price-whole'' ''1,299.'',
                          element ''span'' ''class'' ''a-price-fraction'' ''00'']) = str ''1299.00''
   \<and> list_all (\<lambda>c. isdigit c \<or> c = point)
     (get_price (document
        [Tag (str ''span'') [str ''class'' \<mapsto> str ''a-price-whole'']
           [NavigableString [1633, 1634, 1635]],
         Tag (str ''span'') [str ''class'' \<mapsto> str ''a-price-fraction'']
           [NavigableString [65296, 65296]]]))
   \<and> get_price (document
        [Tag (str ''span'') [str ''class'' \<mapsto> str ''a-price-whole'']
           [NavigableString [1633, 1634, 1635]],
         Tag (str ''span'') [str ''class'' \<mapsto> str ''a-price-fraction'']
           [NavigableString [65296, 65296]]])
       = [1633, 1634, 1635, point, 65296, 65296]"
proof -
  let ?w = "element ''span'' ''class'' ''a-price-whole'' ''1,299.''"
  let ?f = "element ''span'' ''class'' ''a-price-fraction'' ''00''"
  let ?page = "document [?w, ?f]"
  have h1: "find_first ?page (str ''span'') [(str ''id'', str ''priceblock_ourprice'')] = None"
    by (simp add: page_eval)
  have h2: "find_first ?page (str ''span'') [(str ''id'', str ''priceblock_dealprice'')] = None"
    by (simp add: page_eval)
  have h3: "find_first ?page (str ''span'') [(str ''id'', str ''priceblock_saleprice'')] = None"
    by (simp add: page_eval)
  have h4: "find_first ?page (str ''span'') [(str ''class'', str ''a-price-whole'')] = Some ?w"
    by (simp add: page_eval)
  have h5: "find_first ?page (str ''span'') [(str ''class'', str ''a-price-fraction'')] = Some ?f"
    by (simp add: page_eval)
  have result: "get_price ?page = str ''1299.00''"
    by (simp add: run_eval)
  let ?aw = "Tag (str ''span'') [str ''class'' \<mapsto> str ''a-price-whole'']
               [NavigableString [1633, 1634, 1635]]"
  let ?af = "Tag (str ''span'') [str ''class'' \<mapsto> str ''a-price-fraction'']
               [NavigableString [65296, 65296]]"
  let ?arabic = "document [?aw, ?af]"
  have a1: "find_first ?arabic (str ''span'') [(str ''id'', str ''priceblock_ourprice'')] = None"
    by (simp add: page_eval)
  have a2: "find_first ?arabic (str ''span'') [(str ''id'', str ''priceblock_dealprice'')] = None"
    by (simp add: page_eval)
  have a3: "find_first ?arabic (str ''span'') [(str ''id'', str ''priceblock_saleprice'')] = None"
    by (simp add: page_eval)
  have a4: "find_first ?arabic (str ''span'') [(str ''class'', str ''a-price-whole'')] = Some ?aw"
    by (simp add: page_eval)
  have a5: "find_first ?arabic (str ''span'') [(str ''class'', str ''a-price-fraction'')] = Some ?af"
    by (simp add: page_eval)
  have other: "get_price ?arabic = [1633, 1634, 1635, point, 65296, 65296]"
    by (simp add: run_eval)
  show ?thesis
    using get_price_composite_digits_one_point[OF h1 h2 h3 h4 h5]
      get_price_composite_digits_one_point[OF a1 a2 a3 a4 a5] result other
    by (simp add: list_all_iff)
qed

text \<open>
  C4: when none of the three identifier searches matches and the composite pair is not
  there (the whole part or the fraction part is missing), the price is the sentinel
  \<open>Price not found\<close>.
\<close>

theorem get_price_not_found:
  assumes "find_first soup (str ''span'') [(str ''id'', str ''priceblock_ourprice'')] = None"
    and "find_first soup (str ''span'') [(str ''id'', str ''priceblock_dealprice'')] = None"
    and "find_first soup (str ''span'') [(str ''id'', str ''priceblock_saleprice'')] = None"
    and "find_first soup (str ''span'') [(str ''class'', str ''a-price-whole'')] = None
         \<or> find_first soup (str ''span'') [(str ''class'', str ''a-price-fraction'')] = None"
  shows "get_price soup = str ''Price not found''"
  using assms by (auto simp: get_price_def split: option.splits)

theorem get_price_not_found_witness:
  "get_price (document []) = str ''Price not found''
   \<and> get_price (document [element ''span'' ''class'' ''a-price-whole'' ''12'']) = str ''Price not found''"
proof -
  let ?p = "document []"
  let ?q = "document [element ''span'' ''class'' ''a-price-whole'' ''12'']"
  have p1: "find_first ?p (str ''span'') [(str ''id'', str ''priceblock_ourprice'')] = None" by (simp add: run_eval)
  have p2: "find_first ?p (str ''span'') [(str ''id'', str ''priceblock_dealprice'')] = None" by (simp add: run_eval)
  have p3: "find_first ?p (str ''span'') [(str ''id'', str ''priceblock_saleprice'')] = None" by (simp add: run_eval)
  have p4: "find_first ?p (str ''span'') [(str ''class'', str ''a-price-whole'')] = None
         \<or> find_first ?p (str ''span'') [(str ''class'', str ''a-price-fraction'')] = None" by (simp add: run_eval)
  have q1: "find_first ?q (str ''span'') [(str ''id'', str ''priceblock_ourprice'')] = None" by (simp add: run_eval)
  have q2: "find_first ?q (str ''span'') [(str ''id'', str ''priceblock_dealprice'')] = None" by (simp add: run_eval)
  have q3: "find_first ?q (str ''span'') [(str ''id'', str ''priceblock_saleprice'')] = None" by (simp add: run_eval)
  have q5: "find_first ?q (str ''span'') [(str ''class'', str ''a-price-fraction'')] = None" by (simp add: run_eval)
  then have q4: "find_first ?q (str ''span'') [(str ''class'', str ''a-price-whole'')] = None
         \<or> find_first ?q (str ''span'') [(str ''class'', str ''a-price-fraction'')] = None" ..
  show ?thesis
    using get_price_not_found[OF p1 p2 p3 p4] get_price_not_found[OF q1 q2 q3 q4] by simp
qed

text \<open>
  C5: the four strategies in their order. A match of the our-price search decides the
  result; failing that, a match of the deal-price search; failing both, a match of the
  sale-price search; failing all three, the composite pair. In each case the result is
  computed from the matched node alone, whatever the later searches would find.
\<close>

theorem get_price_priority:
  "(find_first soup (str ''span'') [(str ''id'', str ''priceblock_ourprice'')] = Some t
      \<longrightarrow> get_price soup = strip (text_of t))
   \<and> (find_first soup (str ''span'') [(str ''id'', str ''priceblock_ourprice'')] = None
      \<and> find_first soup (str ''span'') [(str ''id'', str ''priceblock_dealprice'')] = Some t
      \<longrightarrow> get_price soup = strip (text_of t))
   \<and> (find_first soup (str ''span'') [(str ''id'', str ''priceblock_ourprice'')] = None
      \<and> find_first soup (str ''span'') [(str ''id'', str ''priceblock_dealprice'')] = None
      \<and> find_first soup (str ''span'') [(str ''id'', str ''priceblock_saleprice'')] = Some t
      \<longrightarrow> get_price soup = strip (text_of t))
   \<and> (find_first soup (str ''span'') [(str ''id'', str ''priceblock_ourprice'')] = None
      \<and> find_first soup (str ''span'') [(str ''id'', str ''priceblock_dealprice'')] = None
      \<and> find_first soup (str ''span'') [(str ''id'', str ''priceblock_saleprice'')] = None
      \<and> find_first soup (str ''span'') [(str ''class'', str ''a-price-whole'')] = Some w
      \<and> find_first soup (str ''span'') [(str ''class'', str ''a-price-fraction'')] = Some f
      \<longrightarrow> get_price soup =
          (let price = re_sub_non_digit_dot (strip (text_of w) @ str ''.'' @ strip (text_of f))
           in if str_count price point \<le> 1 then price
              else str_replace_empty price point (str_count price point - 1)))"
  by (simp add: get_price_def Let_def)

theorem get_price_priority_witness:
  "get_price (document [element ''span'' ''id'' ''priceblock_dealprice'' ''20'',
                        element ''span'' ''id'' ''priceblock_ourprice'' '' 10 '']) = str ''10''
   \<and> get_price (document [element ''span'' ''id'' ''priceblock_saleprice'' ''30'',
                          element ''span'' ''id'' ''priceblock_dealprice'' ''20'']) = str ''20''
   \<and> get_price (document [element ''span'' ''class'' ''a-price-whole'' ''1'',
                          element ''span'' ''class'' ''a-price-fraction'' ''5'',
                          element ''span'' ''id'' ''priceblock_saleprice'' ''30'']) = str ''30''
   \<and> get_price (document [element ''span'' ''class'' ''a-price-whole'' ''1,299.'',
                          element ''span'' ''class'' ''a-price-fraction'' ''00'']) = str ''1299.00''"
proof -
  let ?our = "element ''span'' ''id'' ''priceblock_ourprice'' '' 10 ''"
  let ?deal = "element ''span'' ''id'' ''priceblock_dealprice'' ''20''"
  let ?sale = "element ''span'' ''id'' ''priceblock_saleprice'' ''30''"
  let ?w1 = "element ''span'' ''class'' ''a-price-whole'' ''1''"
  let ?f1 = "element ''span'' ''class'' ''a-price-fraction'' ''5''"
  let ?w = "element ''span'' ''class'' ''a-price-whole'' ''1,299.''"
  let ?f = "element ''span'' ''class'' ''a-price-fraction'' ''00''"
  let ?p1 = "document [?deal, ?our]"
  let ?p2 = "document [?sale, ?deal]"
  let ?p3 = "document [?w1, ?f1, ?sale]"
  let ?p4 = "document [?w, ?f]"
  have a: "find_first ?p1 (str ''span'') [(str ''id'', str ''priceblock_ourprice'')] = Some ?our"
    by (simp add: page_eval)
  have b: "find_first ?p2 (str ''span'') [(str ''id'', str ''priceblock_ourprice'')] = None
      \<and> find_first ?p2 (str ''span'') [(str ''id'', str ''priceblock_dealprice'')] = Some ?deal"
    by (simp add: page_eval)
  have c: "find_first ?p3 (str ''span'') [(str ''id'', str ''priceblock_ourprice'')] = None
      \<and> find_first ?p3 (str ''span'') [(str ''id'', str ''priceblock_dealprice'')] = None
      \<and> find_first ?p3 (str ''span'') [(str ''id'', str ''priceblock_saleprice'')] = Some ?sale"
    by (simp add: page_eval)
  have d: "find_first ?p4 (str ''span'') [(str ''id'', str ''priceblock_ourprice'')] = None
      \<and> find_first ?p4 (str ''span'') [(str ''id'', str ''priceblock_dealprice'')] = None
      \<and> find_first ?p4 (str ''span'') [(str ''id'', str ''priceblock_saleprice'')] = None
      \<and> find_first ?p4 (str ''span'') [(str ''class'', str ''a-price-whole'')] = Some ?w
      \<and> find_first ?p4 (str ''span'') [(str ''class'', str ''a-price-fraction'')] = Some ?f"
    by (simp add: page_eval)
  have r1: "get_price ?p1 = strip (text_of ?our)"
    using get_price_priority[of ?p1 ?our] a by blast
  have r2: "get_price ?p2 = strip (text_of ?deal)"
    using get_price_priority[of ?p2 ?deal] b by blast
  have r3: "get_price ?p3 = strip (text_of ?sale)"
    using get_price_priority[of ?p3 ?sale] c by blast
  have r4: "get_price ?p4 =
          (let price = re_sub_non_digit_dot (strip (text_of ?w) @ str ''.'' @ strip (text_of ?f))
           in if str_count price point \<le> 1 then price
              else str_replace_empty price point (str_count price point - 1))"
    using get_price_priority[of ?p4 _ ?w ?f] d by blast
  have e1: "strip (text_of ?our) = str ''10''" by (simp add: run_eval)
  have e2: "strip (text_of ?deal) = str ''20''" by (simp add: run_eval)
  have e3: "strip (text_of ?sale) = str ''30''" by (simp add: run_eval)
  have e4: "(let price = re_sub_non_digit_dot (strip (text_of ?w) @ str ''.'' @ strip (text_of ?f))
           in if str_count price point \<le> 1 then price
              else str_replace_empty price point (str_count price point - 1)) = str ''1299.00''"
    by (simp add: run_eval)
  show ?thesis
    using r1 r2 r3 r4 e1 e2 e3 e4 by simp
qed

text \<open>
  C6: when the our-price search fails and the deal-price search matches, the price is the
  text of the matched element with the whitespace at both ends removed, and nothing else
  is done to it. This holds whatever the sale-price and composite searches would find, so
  in particular when the deal-price element is the only price element.
\<close>

theorem get_price_dealprice_trimmed:
  assumes "find_first soup (str ''span'') [(str ''id'', str ''priceblock_ourprice'')] = None"
    and "find_first soup (str ''span'') [(str ''id'', str ''priceblock_dealprice'')] = Some t"
  shows "get_price soup = strip (text_of t)"
  using assms by (simp add: get_price_def)

theorem get_price_dealprice_trimmed_witness:
  "text_of (element ''span'' ''id'' ''priceblock_dealprice'' '' 1,299.00 '') = str '' 1,299.00 ''
   \<and> get_price (document [element ''span'' ''id'' ''priceblock_dealprice'' '' 1,299.00 '']) = str ''1,299.00''"
proof -
  let ?t = "element ''span'' ''id'' ''priceblock_dealprice'' '' 1,299.00 ''"
  let ?p = "document [?t]"
  have h1: "find_first ?p (str ''span'') [(str ''id'', str ''priceblock_ourprice'')] = None" by (simp add: run_eval)
  have h2: "find_first ?p (str ''span'') [(str ''id'', str ''priceblock_dealprice'')] = Some ?t"
    by (simp add: page_eval)
  have content: "text_of ?t = str '' 1,299.00 ''" by (simp add: run_eval)
  have "strip (str '' 1,299.00 '') = str ''1,299.00''" by (simp add: run_eval)
  then show ?thesis
    using get_price_dealprice_trimmed[OF h1 h2] content by simp
qed

section \<open>The link collector\<close>

text \<open>\<^verbatim>\<open>href\<close> is never split into a list.\<close>

lemma href_not_list: "tag_get link_tag (str ''href'') \<noteq> PyList vs"
  by (cases link_tag) (simp_all add: cdata_list_attribute_def str_def code_point_def split: option.splits)

text \<open>One pass of the loop adds the absolute URL of the anchor when its \<^verbatim>\<open>href\<close> is a
  string containing \<^verbatim>\<open>/dp/\<close>, and nothing otherwise; it has no failing case.\<close>

lemma dp_not_empty: "str ''/dp/'' \<noteq> []"
  by (simp add: str_def)

lemma add_link_result:
  "add_link link_tag product_links =
     Inr (product_links \<union> {(str ''https://www.amazon.in'') @ h |h.
            tag_get link_tag (str ''href'') = PyStr h \<and> str_contains (str ''/dp/'') h})"
proof (cases "tag_get link_tag (str ''href'')")
  case PyNone
  then show ?thesis by (simp add: add_link_def)
next
  case (PyStr h)
  then show ?thesis by (cases "h = []") (auto simp: add_link_def dp_not_empty)
next
  case (PyList vs)
  then show ?thesis using href_not_list by blast
qed

lemma add_links_result:
  "add_links link_tags product_links =
     Inr (product_links \<union> {(str ''https://www.amazon.in'') @ h |h.
            \<exists>link_tag \<in> set link_tags. tag_get link_tag (str ''href'') = PyStr h \<and> str_contains (str ''/dp/'') h})"
proof (induction link_tags arbitrary: product_links)
  case Nil
  then show ?case by simp
next
  case (Cons link_tag link_tags)
  show ?case
    by (simp add: add_link_result Cons.IH) blast
qed

lemma collect_links_result:
  "collect_links soup =
     Inr {(str ''https://www.amazon.in'') @ h |h.
            \<exists>link_tag \<in> set (find_all soup (str ''a'') [(str ''class'', str ''a-link-normal s-no-outline'')]).
               tag_get link_tag (str ''href'') = PyStr h \<and> str_contains (str ''/dp/'') h}"
  by (simp add: collect_links_def add_links_result)

text \<open>
  C7: when no anchor with the product-card class has an \<^verbatim>\<open>href\<close> containing \<^verbatim>\<open>/dp/\<close>,
  the collector returns the empty set; when there is at least one such anchor and all of
  them have the same \<^verbatim>\<open>href\<close>, it returns the one-element set holding that target
  prefixed by the site's origin.
\<close>

theorem collect_links_empty_or_single:
  "((\<forall>link_tag \<in> set (find_all soup (str ''a'') [(str ''class'', str ''a-link-normal s-no-outline'')]).
       \<forall>h. tag_get link_tag (str ''href'') = PyStr h \<longrightarrow> \<not> str_contains (str ''/dp/'') h)
     \<longrightarrow> collect_links soup = Inr {})
   \<and> ((\<exists>link_tag \<in> set (find_all soup (str ''a'') [(str ''class'', str ''a-link-normal s-no-outline'')]).
          tag_get link_tag (str ''href'') = PyStr target \<and> str_contains (str ''/dp/'') target)
       \<and> (\<forall>link_tag \<in> set (find_all soup (str ''a'') [(str ''class'', str ''a-link-normal s-no-outline'')]).
            \<forall>h. tag_get link_tag (str ''href'') = PyStr h \<and> str_contains (str ''/dp/'') h \<longrightarrow> h = target)
     \<longrightarrow> (\<exists>product_links. collect_links soup = Inr product_links
            \<and> product_links = {(str ''https://www.amazon.in'') @ target}
            \<and> card product_links = 1))"
proof (intro conjI impI)
  assume "\<forall>link_tag \<in> set (find_all soup (str ''a'') [(str ''class'', str ''a-link-normal s-no-outline'')]).
       \<forall>h. tag_get link_tag (str ''href'') = PyStr h \<longrightarrow> \<not> str_contains (str ''/dp/'') h"
  then have "{(str ''https://www.amazon.in'') @ h |h.
            \<exists>link_tag \<in> set (find_all soup (str ''a'') [(str ''class'', str ''a-link-normal s-no-outline'')]).
               tag_get link_tag (str ''href'') = PyStr h \<and> str_contains (str ''/dp/'') h} = {}"
    by blast
  then show "collect_links soup = Inr {}"
    by (simp only: collect_links_result)
next
  assume a: "(\<exists>link_tag \<in> set (find_all soup (str ''a'') [(str ''class'', str ''a-link-normal s-no-outline'')]).
          tag_get link_tag (str ''href'') = PyStr target \<and> str_contains (str ''/dp/'') target)
       \<and> (\<forall>link_tag \<in> set (find_all soup (str ''a'') [(str ''class'', str ''a-link-normal s-no-outline'')]).
            \<forall>h. tag_get link_tag (str ''href'') = PyStr h \<and> str_contains (str ''/dp/'') h \<longrightarrow> h = target)"
  then have "{(str ''https://www.amazon.in'') @ h |h.
            \<exists>link_tag \<in> set (find_all soup (str ''a'') [(str ''class'', str ''a-link-normal s-no-outline'')]).
               tag_get link_tag (str ''href'') = PyStr h \<and> str_contains (str ''/dp/'') h}
          = {(str ''https://www.amazon.in'') @ target}"
    by blast
  then have "collect_links soup = Inr {(str ''https://www.amazon.in'') @ target}"
    by (simp only: collect_links_result)
  then show "\<exists>product_links. collect_links soup = Inr product_links
            \<and> product_links = {(str ''https://www.amazon.in'') @ target}
            \<and> card product_links = 1"
    by simp
qed

theorem collect_links_empty_or_single_witness:
  "collect_links (document [anchor ''a-link-normal s-no-outline'' ''/gp/help'',
                            anchor ''a-link-normal'' ''/dp/B01'']) = Inr {}
   \<and> (\<exists>product_links.
         collect_links (document [anchor ''a-link-normal s-no-outline'' ''/dp/B01'',
                                  anchor ''a-link-normal s-no-outline'' ''/dp/B01'',
                                  anchor ''a-link-normal s-no-outline'' ''/dp/B01'']) = Inr product_links
         \<and> product_links = {str ''https://www.amazon.in/dp/B01''}
         \<and> card product_links = 1)"
proof -
  let ?none = "document [anchor ''a-link-normal s-no-outline'' ''/gp/help'',
                         anchor ''a-link-normal'' ''/dp/B01'']"
  let ?three = "document [anchor ''a-link-normal s-no-outline'' ''/dp/B01'',
                          anchor ''a-link-normal s-no-outline'' ''/dp/B01'',
                          anchor ''a-link-normal s-no-outline'' ''/dp/B01'']"
  have none: "\<forall>link_tag \<in> set (find_all ?none (str ''a'') [(str ''class'', str ''a-link-normal s-no-outline'')]).
       \<forall>h. tag_get link_tag (str ''href'') = PyStr h \<longrightarrow> \<not> str_contains (str ''/dp/'') h"
    by (simp add: page_eval)
  have three: "(\<exists>link_tag \<in> set (find_all ?three (str ''a'') [(str ''class'', str ''a-link-normal s-no-outline'')]).
          tag_get link_tag (str ''href'') = PyStr (str ''/dp/B01'') \<and> str_contains (str ''/dp/'') (str ''/dp/B01''))
       \<and> (\<forall>link_tag \<in> set (find_all ?three (str ''a'') [(str ''class'', str ''a-link-normal s-no-outline'')]).
            \<forall>h. tag_get link_tag (str ''href'') = PyStr h \<and> str_contains (str ''/dp/'') h \<longrightarrow> h = str ''/dp/B01'')"
    by (simp add: page_eval)
  show ?thesis
    using collect_links_empty_or_single[of ?none] collect_links_empty_or_single[of ?three "(str ''/dp/B01'')"]
      none three
    by (simp add: str_def)
qed

text \<open>
  C8: the collector returns a set for every page, never an error, and an anchor without
  an \<^verbatim>\<open>href\<close> attribute leaves the set as it is.
\<close>

theorem collect_links_never_raises:
  "(\<exists>product_links. collect_links soup = Inr product_links)
   \<and> (tag_get link_tag (str ''href'') = PyNone \<longrightarrow> add_link link_tag product_links = Inr product_links)"
  by (simp add: collect_links_result add_link_def)

theorem collect_links_never_raises_witness:
  "tag_get (Tag (str ''a'') [str ''class'' \<mapsto> str ''a-link-normal s-no-outline''] []) (str ''href'') = PyNone
   \<and> add_link (Tag (str ''a'') [str ''class'' \<mapsto> str ''a-link-normal s-no-outline''] []) {str ''x''} = Inr {str ''x''}
   \<and> (\<exists>product_links.
         collect_links (document [Tag (str ''a'') [str ''class'' \<mapsto> str ''a-link-normal s-no-outline''] [],
                                  NavigableString (str ''<a href='')]) = Inr product_links)"
proof -
  let ?a = "Tag (str ''a'') [str ''class'' \<mapsto> str ''a-link-normal s-no-outline''] []"
  have h: "tag_get ?a (str ''href'') = PyNone" by (simp add: str_def code_point_def)
  show ?thesis
    using collect_links_never_raises[of "document [?a, NavigableString (str ''<a href='')]" ?a "{str ''x''}"] h
    by simp
qed

section \<open>The result table\<close>

text \<open>The loop appends to the four lists in step, so they stay the columns of one list of
  records: the products fetched so far, in order.\<close>

lemma collect_data_rows:
  "collect_data http links
     \<lparr>Product_Name = map Product_Name ps, Price = map Price ps,
      Rating = map Rating ps, Seller_Name = map Seller_Name ps\<rparr>
   = (let qs = ps @ List.map_filter (fetch_product_data http) links in
     \<lparr>Product_Name = map Product_Name qs, Price = map Price qs,
      Rating = map Rating qs, Seller_Name = map Seller_Name qs\<rparr>)"
proof (induction links arbitrary: ps)
  case Nil
  then show ?case by (simp add: map_filter_simps)
next
  case (Cons link links)
  show ?case
  proof (cases "fetch_product_data http link")
    case None
    then show ?thesis using Cons.IH[of ps] by (simp add: map_filter_simps)
  next
    case (Some product_data)
    then show ?thesis using Cons.IH[of "ps @ [product_data]"]
      by (simp add: map_filter_simps append_product_def)
  qed
qed

lemma zip_columns:
  "zip (map f ps) (zip (map g ps) (zip (map h ps) (map k ps)))
   = map (\<lambda>d. (f d, g d, h d, k d)) ps"
  by (induction ps) simp_all

lemma DataFrame_rows:
  "DataFrame \<lparr>Product_Name = map Product_Name ps, Price = map Price ps,
      Rating = map Rating ps, Seller_Name = map Seller_Name ps\<rparr>
   = Inr (map (\<lambda>d. \<lparr>Product_Name = Str (Product_Name d), Price = Str (Price d),
                     Rating = Str (Rating d), Seller_Name = Str (Seller_Name d)\<rparr>) ps)"
  by (simp add: DataFrame_def zip_columns)

lemma write_replace_cell: "write_cell (replace_cell (Str s)) = s"
  by (simp add: write_cell_def replace_cell_def)

lemma replace_cell_NaN: "replace_cell (Str s) = NaN \<longleftrightarrow> s = []"
  by (simp add: replace_cell_def)

text \<open>
  C10: the file holds the header and then, in order and with their four fields unchanged,
  exactly the fetched products whose name is not the empty string. A product whose name
  is any non-empty string, \<open>Title not found\<close> included, is written; a product whose name
  is the empty string is not; and building the frame never fails.
\<close>

theorem save_products_drops_empty_names_only:
  "save_products http links =
     Inr ([str ''Product Name'', str ''Price'', str ''Rating'', str ''Seller Name'']
          # map (\<lambda>product_data. [Product_Name product_data, Price product_data,
                                   Rating product_data, Seller_Name product_data])
              (filter (\<lambda>product_data. Product_Name product_data \<noteq> [])
                 (List.map_filter (fetch_product_data http) links)))"
proof -
  have "collect_data http links empty_data =
     (let qs = List.map_filter (fetch_product_data http) links in
     \<lparr>Product_Name = map Product_Name qs, Price = map Price qs,
      Rating = map Rating qs, Seller_Name = map Seller_Name qs\<rparr>)"
    using collect_data_rows[of http links "[]"] by (simp add: empty_data_def)
  then show ?thesis
    by (simp add: save_products_def Let_def DataFrame_rows to_csv_def dropna_Product_Name_def
        replace_empty_def filter_map comp_def write_replace_cell replace_cell_NaN)
qed

text \<open>
  C1 at a run that fetches one page without a \<^verbatim>\<open>productTitle\<close> element: the row whose
  name is \<open>Title not found\<close> is written to the file.
\<close>

theorem save_products_writes_sentinel_row:
  "save_products (\<lambda>url. Page (document [])) [str ''https://www.amazon.in/dp/B01''] =
     Inr [[str ''Product Name'', str ''Price'', str ''Rating'', str ''Seller Name''],
          [str ''Title not found'', str ''Price not found'', str ''Rating not found'', str ''Unknown Seller'']]"
  by (simp add: run_eval)

end
